theory Spec2Isabelle
  imports Complex_Main
begin

section \<open>Python floating point\<close>

text \<open>
  The brightness arithmetic of \<^verbatim>\<open>light.py\<close> runs on Python floats, which are IEEE 754
  binary64 numbers. A finite float is a rational number, and every basic operation
  (\<^verbatim>\<open>+\<close>, \<^verbatim>\<open>*\<close>, \<^verbatim>\<open>/\<close>, and the true division of two integers) returns the exact
  result rounded to the nearest representable number, ties going to the even
  significand. The model keeps the value of a float as a \<open>rat\<close> and writes the rounding
  out. Results at or beyond \<open>2 ^ 1024\<close> (where Python gives \<^verbatim>\<open>inf\<close> or raises
  \<^verbatim>\<open>OverflowError\<close>) are outside the model; every value met below is far from there.
\<close>

type_synonym float = rat

function bit_length :: "int \<Rightarrow> nat" where
  "bit_length n = (if n \<le> 0 then 0 else Suc (bit_length (n div 2)))"
  by pat_completeness auto
termination
  by (relation "measure nat") auto

declare bit_length.simps [simp del]

definition pow2 :: "int \<Rightarrow> rat" where
  "pow2 k = (if 0 \<le> k then 2 ^ nat k else 1 / 2 ^ nat (- k))"

text \<open>The binary exponent \<open>e\<close> of a non-zero rational: \<open>2 ^ e \<le> \<bar>x\<bar> < 2 ^ (e + 1)\<close>.\<close>

definition exponent :: "rat \<Rightarrow> int" where
  "exponent x =
     (let (p, q) = quotient_of \<bar>x\<bar>;
          k = int (bit_length p) - int (bit_length q)
      in if pow2 k \<le> \<bar>x\<bar> then k else k - 1)"

definition round_half_even :: "rat \<Rightarrow> int" where
  "round_half_even x =
     (let f = \<lfloor>x\<rfloor>; d = x - of_int f
      in if d < 1 / 2 then f
         else if 1 / 2 < d then f + 1
         else if even f then f else f + 1)"

text \<open>
  Rounding to binary64: 53 significant bits, so the unit in the last place of a number
  with exponent \<open>e\<close> is \<open>2 ^ (e - 52)\<close>; below \<open>2 ^ (- 1022)\<close> the spacing stays that of
  the smallest normal numbers.
\<close>

definition fl :: "rat \<Rightarrow> float" where
  "fl x =
     (if x = 0 then 0
      else let u = pow2 (max (exponent x) (- 1022) - 52)
           in of_int (round_half_even (x / u)) * u)"

definition fadd :: "float \<Rightarrow> float \<Rightarrow> float" where
  "fadd a b = fl (a + b)"

definition fmul :: "float \<Rightarrow> float \<Rightarrow> float" where
  "fmul a b = fl (a * b)"

definition fdiv :: "float \<Rightarrow> float \<Rightarrow> float" where
  "fdiv a b = fl (a / b)"

text \<open>\<^verbatim>\<open>a / b\<close> on two Python integers: the correctly rounded quotient.\<close>

definition int_truediv :: "int \<Rightarrow> int \<Rightarrow> float" where
  "int_truediv a b = fl (of_int a / of_int b)"

text \<open>\<^verbatim>\<open>int(x)\<close> on a float truncates towards zero.\<close>

definition py_int :: "float \<Rightarrow> int" where
  "py_int x = (if 0 \<le> x then \<lfloor>x\<rfloor> else \<lceil>x\<rceil>)"


section \<open>Constants (const.py)\<close>

definition OFFSET_TYPE_ABSOLUTE :: string where
  "OFFSET_TYPE_ABSOLUTE = ''absolute''"

definition OFFSET_TYPE_RELATIVE :: string where
  "OFFSET_TYPE_RELATIVE = ''relative''"

definition DEFAULT_OFFSET :: int where
  "DEFAULT_OFFSET = 0"

definition DEFAULT_OFFSET_TYPE :: string where
  "DEFAULT_OFFSET_TYPE = OFFSET_TYPE_ABSOLUTE"

definition DEFAULT_MIN_BRIGHTNESS :: int where
  "DEFAULT_MIN_BRIGHTNESS = 1"

definition DEFAULT_MAX_BRIGHTNESS :: int where
  "DEFAULT_MAX_BRIGHTNESS = 100"


section \<open>The brightness mapping (light.py, \<^verbatim>\<open>_calculate_light_brightness\<close>)\<close>

text \<open>
  The per-member dictionary built by \<^verbatim>\<open>async_setup_entry\<close> always holds the three keys
  offset, min_brightness and max_brightness; the number selectors of the configuration
  flow produce whole numbers (step 1).
\<close>

record member_config =
  conf_offset :: int
  conf_min_brightness :: int
  conf_max_brightness :: int

text \<open>
  \<^verbatim>\<open>self._entities_config.get(entity_id, {})\<close> followed by the three \<^verbatim>\<open>config.get\<close>
  calls: an unknown member gets the defaults.
\<close>

definition default_member_config :: member_config where
  "default_member_config =
     \<lparr>conf_offset = DEFAULT_OFFSET,
      conf_min_brightness = DEFAULT_MIN_BRIGHTNESS,
      conf_max_brightness = DEFAULT_MAX_BRIGHTNESS\<rparr>"

definition get_config :: "(string \<times> member_config) list \<Rightarrow> string \<Rightarrow> member_config" where
  "get_config entities_config entity_id =
     (case map_of entities_config entity_id of
        None \<Rightarrow> default_member_config
      | Some config \<Rightarrow> config)"

text \<open>\<^verbatim>\<open>int((pct / 100) * 255)\<close>\<close>

definition pct_to_255 :: "int \<Rightarrow> int" where
  "pct_to_255 pct = py_int (fmul (int_truediv pct 100) 255)"

definition relative_target :: "int \<Rightarrow> int \<Rightarrow> int" where
  "relative_target master_brightness offset =
     (let multiplier = int_truediv (100 + offset) 100
      in py_int (fmul (of_int master_brightness) multiplier))"

definition absolute_target :: "int \<Rightarrow> int \<Rightarrow> int" where
  "absolute_target master_brightness offset =
     (let master_pct = fmul (int_truediv master_brightness 255) 100;
          target_pct = fadd master_pct (of_int offset)
      in py_int (fmul (fdiv target_pct 100) 255))"

definition calculate_light_brightness ::
    "(string \<times> member_config) list \<Rightarrow> string \<Rightarrow> string \<Rightarrow> int \<Rightarrow> int" where
  "calculate_light_brightness entities_config offset_type entity_id master_brightness =
     (let config = get_config entities_config entity_id;
          offset = conf_offset config;
          min_brightness_pct = conf_min_brightness config;
          max_brightness_pct = conf_max_brightness config;
          min_brightness = pct_to_255 min_brightness_pct;
          max_brightness = pct_to_255 max_brightness_pct;
          target = (if offset_type = OFFSET_TYPE_RELATIVE
                    then relative_target master_brightness offset
                    else absolute_target master_brightness offset)
      in max min_brightness (min max_brightness target))"


section \<open>The mapping as the specification words it\<close>

text \<open>
  The specification gives the mapping in exact arithmetic and asks for floor behaviour
  when a value is brought to a whole number.
\<close>

definition clamp :: "int \<Rightarrow> int \<Rightarrow> int \<Rightarrow> int" where
  "clamp x lo hi = max lo (min hi x)"

definition spec_bound :: "int \<Rightarrow> int" where
  "spec_bound pct = \<lfloor>of_int pct / 100 * 255 :: rat\<rfloor>"

definition spec_absolute_exact :: "int \<Rightarrow> int \<Rightarrow> rat" where
  "spec_absolute_exact m offset = (of_int m / 255 * 100 + of_int offset) / 100 * 255"

definition spec_absolute :: "int \<Rightarrow> int \<Rightarrow> int \<Rightarrow> int \<Rightarrow> int" where
  "spec_absolute m offset minPct maxPct =
     clamp \<lfloor>spec_absolute_exact m offset\<rfloor> (spec_bound minPct) (spec_bound maxPct)"

definition spec_relative_exact :: "int \<Rightarrow> int \<Rightarrow> rat" where
  "spec_relative_exact m offset = of_int m * (100 + of_int offset) / 100"

definition spec_relative :: "int \<Rightarrow> int \<Rightarrow> int \<Rightarrow> int \<Rightarrow> int" where
  "spec_relative m offset minPct maxPct =
     clamp \<lfloor>spec_relative_exact m offset\<rfloor> (spec_bound minPct) (spec_bound maxPct)"


section \<open>The host's constants\<close>

text \<open>
  \<^verbatim>\<open>STATE_ON\<close>, \<^verbatim>\<open>STATE_UNAVAILABLE\<close> and \<^verbatim>\<open>STATE_UNKNOWN\<close> come from
  \<^verbatim>\<open>homeassistant.const\<close>, and \<^verbatim>\<open>ColorMode\<close> is the string enumeration of
  \<^verbatim>\<open>homeassistant.components.light\<close>; \<^verbatim>\<open>ColorMode(s)\<close> raises \<^verbatim>\<open>ValueError\<close> on a
  string that is not one of its values, which is \<open>None\<close> here.
\<close>

definition STATE_ON :: string where
  "STATE_ON = ''on''"

definition STATE_UNAVAILABLE :: string where
  "STATE_UNAVAILABLE = ''unavailable''"

definition STATE_UNKNOWN :: string where
  "STATE_UNKNOWN = ''unknown''"

datatype ColorMode =
  UNKNOWN | ONOFF | BRIGHTNESS | COLOR_TEMP | HS | XY | RGB | RGBW | RGBWW | WHITE

definition ColorMode_of :: "string \<Rightarrow> ColorMode option" where
  "ColorMode_of s =
     (if s = ''unknown'' then Some UNKNOWN
      else if s = ''onoff'' then Some ONOFF
      else if s = ''brightness'' then Some BRIGHTNESS
      else if s = ''color_temp'' then Some COLOR_TEMP
      else if s = ''hs'' then Some HS
      else if s = ''xy'' then Some XY
      else if s = ''rgb'' then Some RGB
      else if s = ''rgbw'' then Some RGBW
      else if s = ''rgbww'' then Some RGBWW
      else if s = ''white'' then Some WHITE
      else None)"


section \<open>The group controller (light.py, class \<^verbatim>\<open>OffsetLightGroup\<close>)\<close>

type_synonym hs = "float \<times> float"
type_synonym xy = "float \<times> float"
type_synonym rgb = "int \<times> int \<times> int"
type_synonym rgbw = "int \<times> int \<times> int \<times> int"
type_synonym rgbww = "int \<times> int \<times> int \<times> int \<times> int"

text \<open>
  The object's fields. \<^verbatim>\<open>_entities_config\<close> is a dictionary, iterated in insertion
  order; it is kept as the list of its items. \<open>brightness_128\<close> is the field
  \<^verbatim>\<open>_brightness\<close>, which the constructor sets and nothing reads.
\<close>

record OffsetLightGroup =
  entities_config :: "(string \<times> member_config) list"
  offset_type :: string
  is_on :: bool
  master_brightness :: int
  brightness_128 :: int
  color_mode :: "ColorMode option"
  hs_color :: "hs option"
  color_temp :: "int option"
  rgb_color :: "rgb option"
  rgbw_color :: "rgbw option"
  rgbww_color :: "rgbww option"
  xy_color :: "xy option"
  supported_color_modes :: "ColorMode set"
  supported_features :: int
  applying_state :: bool

text \<open>The state of the object that \<^verbatim>\<open>__init__\<close> builds.\<close>

definition init :: "(string \<times> member_config) list \<Rightarrow> string \<Rightarrow> OffsetLightGroup" where
  "init entities offset_t =
     \<lparr>entities_config = entities, offset_type = offset_t,
      is_on = False, master_brightness = 128, brightness_128 = 128,
      color_mode = None, hs_color = None, color_temp = None, rgb_color = None,
      rgbw_color = None, rgbww_color = None, xy_color = None,
      supported_color_modes = {}, supported_features = 0,
      applying_state = False\<rparr>"

text \<open>The \<^verbatim>\<open>brightness\<close> property.\<close>

definition brightness :: "OffsetLightGroup \<Rightarrow> int option" where
  "brightness self = (if is_on self then Some (master_brightness self) else None)"

text \<open>\<^verbatim>\<open>self._calculate_light_brightness(entity_id, master_brightness)\<close>\<close>

definition member_brightness :: "OffsetLightGroup \<Rightarrow> string \<Rightarrow> int \<Rightarrow> int" where
  "member_brightness self entity_id m =
     calculate_light_brightness (entities_config self) (offset_type self) entity_id m"

subsection \<open>The host: member observations and the light service\<close>

text \<open>
  A member observation is the host's \<^verbatim>\<open>State\<close> object: the state string and the
  attributes the controller reads. An attribute that is absent is \<open>None\<close>.
\<close>

record State =
  state :: string
  attr_brightness :: "int option"
  attr_supported_color_modes :: "string list option"
  attr_supported_features :: "int option"
  attr_color_mode :: "string option"
  attr_hs_color :: "hs option"
  attr_color_temp :: "int option"
  attr_rgb_color :: "rgb option"
  attr_rgbw_color :: "rgbw option"
  attr_rgbww_color :: "rgbww option"
  attr_xy_color :: "xy option"

text \<open>The keyword arguments of a turn-on or turn-off call: a key that is absent is \<open>None\<close>.\<close>

record kwargs =
  kw_brightness :: "int option"
  kw_hs_color :: "hs option"
  kw_color_temp :: "int option"
  kw_rgb_color :: "rgb option"
  kw_rgbw_color :: "rgbw option"
  kw_rgbww_color :: "rgbww option"
  kw_xy_color :: "xy option"
  kw_transition :: "float option"

text \<open>
  The data of a call to the host's light service. Turn-on names one member, turn-off
  the list of all members.
\<close>

datatype entity_ids = Single string | Listed "string list"

datatype service = SERVICE_TURN_ON | SERVICE_TURN_OFF

record service_data =
  sd_entity_id :: entity_ids
  sd_brightness :: "int option"
  sd_hs_color :: "hs option"
  sd_color_temp :: "int option"
  sd_rgb_color :: "rgb option"
  sd_rgbw_color :: "rgbw option"
  sd_rgbww_color :: "rgbww option"
  sd_xy_color :: "xy option"
  sd_transition :: "float option"

text \<open>
  The host, as far as the controller sees it: \<^verbatim>\<open>hass.states.get\<close> and
  \<^verbatim>\<open>hass.services.async_call\<close>. A call that raises is \<open>False\<close>.
\<close>

record hass =
  states_get :: "string \<Rightarrow> State option"
  async_call :: "service \<Rightarrow> service_data \<Rightarrow> bool"

datatype error = ServiceCallFailed

text \<open>What an operation does that the host can see, in the order it happens.\<close>

datatype event =
  Set_applying_state bool
| Service_call service service_data
| Write_ha_state


subsection \<open>Turn-on and turn-off\<close>

text \<open>\<^verbatim>\<open>_store_color_from_kwargs\<close>: six independent checks, in this order.\<close>

definition store_hs :: "kwargs \<Rightarrow> OffsetLightGroup \<Rightarrow> OffsetLightGroup" where
  "store_hs kw self =
     (case kw_hs_color kw of None \<Rightarrow> self
      | Some v \<Rightarrow> self\<lparr>hs_color := Some v, color_mode := Some HS\<rparr>)"

definition store_rgb :: "kwargs \<Rightarrow> OffsetLightGroup \<Rightarrow> OffsetLightGroup" where
  "store_rgb kw self =
     (case kw_rgb_color kw of None \<Rightarrow> self
      | Some v \<Rightarrow> self\<lparr>rgb_color := Some v, color_mode := Some RGB\<rparr>)"

definition store_rgbw :: "kwargs \<Rightarrow> OffsetLightGroup \<Rightarrow> OffsetLightGroup" where
  "store_rgbw kw self =
     (case kw_rgbw_color kw of None \<Rightarrow> self
      | Some v \<Rightarrow> self\<lparr>rgbw_color := Some v, color_mode := Some RGBW\<rparr>)"

definition store_rgbww :: "kwargs \<Rightarrow> OffsetLightGroup \<Rightarrow> OffsetLightGroup" where
  "store_rgbww kw self =
     (case kw_rgbww_color kw of None \<Rightarrow> self
      | Some v \<Rightarrow> self\<lparr>rgbww_color := Some v, color_mode := Some RGBWW\<rparr>)"

definition store_xy :: "kwargs \<Rightarrow> OffsetLightGroup \<Rightarrow> OffsetLightGroup" where
  "store_xy kw self =
     (case kw_xy_color kw of None \<Rightarrow> self
      | Some v \<Rightarrow> self\<lparr>xy_color := Some v, color_mode := Some XY\<rparr>)"

definition store_color_temp :: "kwargs \<Rightarrow> OffsetLightGroup \<Rightarrow> OffsetLightGroup" where
  "store_color_temp kw self =
     (case kw_color_temp kw of None \<Rightarrow> self
      | Some v \<Rightarrow> self\<lparr>color_temp := Some v, color_mode := Some COLOR_TEMP\<rparr>)"

definition store_color_from_kwargs :: "OffsetLightGroup \<Rightarrow> kwargs \<Rightarrow> OffsetLightGroup" where
  "store_color_from_kwargs self kw =
     store_color_temp kw (store_xy kw (store_rgbww kw (store_rgbw kw
       (store_rgb kw (store_hs kw self)))))"

text \<open>
  The service data turn-on builds for one member: its brightness, every colour
  attribute of \<^verbatim>\<open>COLOR_ATTRS\<close> that the call carries, and the transition.
\<close>

definition turn_on_service_data :: "OffsetLightGroup \<Rightarrow> kwargs \<Rightarrow> string \<Rightarrow> service_data" where
  "turn_on_service_data self kw entity_id =
     \<lparr>sd_entity_id = Single entity_id,
      sd_brightness = Some (member_brightness self entity_id (master_brightness self)),
      sd_hs_color = kw_hs_color kw,
      sd_color_temp = kw_color_temp kw,
      sd_rgb_color = kw_rgb_color kw,
      sd_rgbw_color = kw_rgbw_color kw,
      sd_rgbww_color = kw_rgbww_color kw,
      sd_xy_color = kw_xy_color kw,
      sd_transition = kw_transition kw\<rparr>"

text \<open>
  The loop over the members: each call is awaited before the next, and a call that
  raises ends the loop with the error.
\<close>

fun turn_on_members ::
    "hass \<Rightarrow> OffsetLightGroup \<Rightarrow> kwargs \<Rightarrow> string list \<Rightarrow> event list \<times> (error + unit)" where
  "turn_on_members h self kw [] = ([], Inr ())"
| "turn_on_members h self kw (entity_id # rest) =
     (let data = turn_on_service_data self kw entity_id
      in if async_call h SERVICE_TURN_ON data
         then (let (evs, r) = turn_on_members h self kw rest
               in (Service_call SERVICE_TURN_ON data # evs, r))
         else ([Service_call SERVICE_TURN_ON data], Inl ServiceCallFailed))"

text \<open>The body of the \<^verbatim>\<open>try\<close> block of \<^verbatim>\<open>async_turn_on\<close>.\<close>

definition turn_on_try ::
    "hass \<Rightarrow> OffsetLightGroup \<Rightarrow> kwargs \<Rightarrow> OffsetLightGroup \<times> event list \<times> (error + unit)" where
  "turn_on_try h self kw =
     (let self1 = (case kw_brightness kw of
                     None \<Rightarrow> self
                   | Some b \<Rightarrow> self\<lparr>master_brightness := b\<rparr>);
          self2 = store_color_from_kwargs self1 kw;
          (evs, r) = turn_on_members h self2 kw (map fst (entities_config self2))
      in case r of
           Inl e \<Rightarrow> (self2, evs, Inl e)
         | Inr u \<Rightarrow> (self2\<lparr>is_on := True\<rparr>, evs @ [Write_ha_state], Inr ()))"

text \<open>
  \<^verbatim>\<open>try: ... finally: self._applying_state = False\<close>: the \<^verbatim>\<open>finally\<close> clause runs
  after the body whether it returned or raised, and an error of the body goes on to
  the caller.
\<close>

definition finally_clear ::
    "OffsetLightGroup \<times> event list \<times> (error + unit) \<Rightarrow>
     OffsetLightGroup \<times> event list \<times> (error + unit)" where
  "finally_clear res =
     (case res of (self, evs, r) \<Rightarrow>
        (self\<lparr>applying_state := False\<rparr>, evs @ [Set_applying_state False], r))"

definition async_turn_on ::
    "hass \<Rightarrow> OffsetLightGroup \<Rightarrow> kwargs \<Rightarrow> OffsetLightGroup \<times> event list \<times> (error + unit)" where
  "async_turn_on h self kw =
     (case finally_clear (turn_on_try h (self\<lparr>applying_state := True\<rparr>) kw) of
        (self', evs, r) \<Rightarrow> (self', Set_applying_state True # evs, r))"

definition turn_off_service_data :: "OffsetLightGroup \<Rightarrow> kwargs \<Rightarrow> service_data" where
  "turn_off_service_data self kw =
     \<lparr>sd_entity_id = Listed (map fst (entities_config self)),
      sd_brightness = None,
      sd_hs_color = None,
      sd_color_temp = None,
      sd_rgb_color = None,
      sd_rgbw_color = None,
      sd_rgbww_color = None,
      sd_xy_color = None,
      sd_transition = kw_transition kw\<rparr>"

definition turn_off_try ::
    "hass \<Rightarrow> OffsetLightGroup \<Rightarrow> kwargs \<Rightarrow> OffsetLightGroup \<times> event list \<times> (error + unit)" where
  "turn_off_try h self kw =
     (let data = turn_off_service_data self kw
      in if async_call h SERVICE_TURN_OFF data
         then (self\<lparr>is_on := False\<rparr>,
               [Service_call SERVICE_TURN_OFF data, Write_ha_state], Inr ())
         else (self, [Service_call SERVICE_TURN_OFF data], Inl ServiceCallFailed))"

definition async_turn_off ::
    "hass \<Rightarrow> OffsetLightGroup \<Rightarrow> kwargs \<Rightarrow> OffsetLightGroup \<times> event list \<times> (error + unit)" where
  "async_turn_off h self kw =
     (case finally_clear (turn_off_try h (self\<lparr>applying_state := True\<rparr>) kw) of
        (self', evs, r) \<Rightarrow> (self', Set_applying_state True # evs, r))"

text \<open>Reading a trace: the service calls in it, and the writes of the guard flag.\<close>

fun service_calls :: "event list \<Rightarrow> service_data list" where
  "service_calls [] = []"
| "service_calls (Service_call s data # evs) = data # service_calls evs"
| "service_calls (ev # evs) = service_calls evs"

fun is_guard_write :: "event \<Rightarrow> bool" where
  "is_guard_write (Set_applying_state b) = True"
| "is_guard_write ev = False"

fun is_service_call :: "event \<Rightarrow> bool" where
  "is_service_call (Service_call s data) = True"
| "is_service_call ev = False"


subsection \<open>Passive resynchronization (\<^verbatim>\<open>_update_state_from_members\<close>)\<close>

text \<open>The four accumulators of the loop over the members.\<close>

record scan =
  on_states :: "string list"
  brightness_values :: "int list"
  color_modes :: "ColorMode set"
  features :: int

definition empty_scan :: scan where
  "empty_scan = \<lparr>on_states = [], brightness_values = [], color_modes = {}, features = 0\<rparr>"

text \<open>
  \<^verbatim>\<open>color_modes.add(ColorMode(mode))\<close> for every mode of the list, a mode the
  enumeration does not know being logged and left out.
\<close>

fun add_modes :: "string list \<Rightarrow> ColorMode set \<Rightarrow> ColorMode set" where
  "add_modes [] acc = acc"
| "add_modes (mode # modes) acc =
     (case ColorMode_of mode of
        None \<Rightarrow> add_modes modes acc
      | Some cm \<Rightarrow> add_modes modes (insert cm acc))"

text \<open>
  What one member that is neither absent nor unavailable nor unknown adds. The
  conditions are Python's truth tests: a brightness that is absent or 0, a mode list
  that is absent or empty and a feature number that is absent or 0 add nothing.
\<close>

definition scan_on :: "string \<Rightarrow> State \<Rightarrow> scan \<Rightarrow> scan" where
  "scan_on entity_id st acc =
     (if state st = STATE_ON
      then (let acc1 = acc\<lparr>on_states := on_states acc @ [entity_id]\<rparr>
            in case attr_brightness st of
                 None \<Rightarrow> acc1
               | Some b \<Rightarrow> if b = 0 then acc1
                          else acc1\<lparr>brightness_values := brightness_values acc1 @ [b]\<rparr>)
      else acc)"

definition scan_modes :: "State \<Rightarrow> scan \<Rightarrow> scan" where
  "scan_modes st acc =
     (case attr_supported_color_modes st of
        None \<Rightarrow> acc
      | Some modes \<Rightarrow> acc\<lparr>color_modes := add_modes modes (color_modes acc)\<rparr>)"

definition scan_features :: "State \<Rightarrow> scan \<Rightarrow> scan" where
  "scan_features st acc =
     (case attr_supported_features st of
        None \<Rightarrow> acc
      | Some entity_features \<Rightarrow>
          if entity_features = 0 then acc
          else acc\<lparr>features := or (features acc) entity_features\<rparr>)"

fun scan_members :: "hass \<Rightarrow> string list \<Rightarrow> scan \<Rightarrow> scan" where
  "scan_members h [] acc = acc"
| "scan_members h (entity_id # rest) acc =
     (case states_get h entity_id of
        None \<Rightarrow> scan_members h rest acc
      | Some st \<Rightarrow>
          if state st = STATE_UNAVAILABLE \<or> state st = STATE_UNKNOWN
          then scan_members h rest acc
          else scan_members h rest (scan_features st (scan_modes st (scan_on entity_id st acc))))"

text \<open>
  The colour mode copied from the first member that is on: the attribute converted by
  \<^verbatim>\<open>ColorMode\<close>, and nothing when it is absent, empty or not a value of the enumeration.
\<close>

definition copied_color_mode :: "State \<Rightarrow> ColorMode option" where
  "copied_color_mode first_on =
     (case attr_color_mode first_on of
        None \<Rightarrow> None
      | Some cm \<Rightarrow> if cm = [] then None else ColorMode_of cm)"

definition copy_color :: "State \<Rightarrow> OffsetLightGroup \<Rightarrow> OffsetLightGroup" where
  "copy_color first_on self =
     self\<lparr>color_mode := copied_color_mode first_on,
          hs_color := attr_hs_color first_on,
          color_temp := attr_color_temp first_on,
          rgb_color := attr_rgb_color first_on,
          rgbw_color := attr_rgbw_color first_on,
          rgbww_color := attr_rgbww_color first_on,
          xy_color := attr_xy_color first_on\<rparr>"

definition update_state_from_members :: "hass \<Rightarrow> OffsetLightGroup \<Rightarrow> OffsetLightGroup" where
  "update_state_from_members h self =
     (let sc = scan_members h (map fst (entities_config self)) empty_scan;
          self1 = self\<lparr>is_on := 0 < length (on_states sc),
                       supported_color_modes :=
                         (if color_modes sc = {} then {BRIGHTNESS} else color_modes sc),
                       supported_features := features sc\<rparr>
      in case on_states sc of
           [] \<Rightarrow> self1
         | first # others \<Rightarrow>
             (case states_get h first of
                None \<Rightarrow> self1
              | Some first_on \<Rightarrow> copy_color first_on self1))"

text \<open>
  The listener registered for the members' state changes: nothing happens while the
  guard flag is set.
\<close>

definition async_state_changed_listener ::
    "hass \<Rightarrow> OffsetLightGroup \<Rightarrow> OffsetLightGroup \<times> event list" where
  "async_state_changed_listener h self =
     (if applying_state self then (self, [])
      else (update_state_from_members h self, [Write_ha_state]))"

text \<open>A member observation reports on: it is there and its state is \<^verbatim>\<open>on\<close>.\<close>

definition reports_on :: "hass \<Rightarrow> string \<Rightarrow> bool" where
  "reports_on h entity_id =
     (case states_get h entity_id of None \<Rightarrow> False | Some st \<Rightarrow> state st = STATE_ON)"

text \<open>A member is skipped: its observation is absent, unavailable or unknown.\<close>

definition skipped :: "hass \<Rightarrow> string \<Rightarrow> bool" where
  "skipped h entity_id =
     (case states_get h entity_id of
        None \<Rightarrow> True
      | Some st \<Rightarrow> state st = STATE_UNAVAILABLE \<or> state st = STATE_UNKNOWN)"


section \<open>Concrete groups and hosts\<close>

text \<open>Two members with the default bounds, one of them 25 points below the master.\<close>

definition example_members :: "(string \<times> member_config) list" where
  "example_members =
     [(''light.a'', \<lparr>conf_offset = 0, conf_min_brightness = 1, conf_max_brightness = 100\<rparr>),
      (''light.b'', \<lparr>conf_offset = - 25, conf_min_brightness = 1, conf_max_brightness = 100\<rparr>)]"

definition no_kwargs :: kwargs where
  "no_kwargs =
     \<lparr>kw_brightness = None, kw_hs_color = None, kw_color_temp = None, kw_rgb_color = None,
      kw_rgbw_color = None, kw_rgbww_color = None, kw_xy_color = None, kw_transition = None\<rparr>"

definition no_state :: "string \<Rightarrow> State option" where
  "no_state entity_id = None"

definition obliging_host :: hass where
  "obliging_host = \<lparr>states_get = no_state, async_call = (\<lambda>s data. True)\<rparr>"

definition example_group :: OffsetLightGroup where
  "example_group = (init example_members ''absolute'')\<lparr>is_on := True, master_brightness := 200\<rparr>"


text \<open>
  A host that shows one member off and the other unavailable, and a group that holds a
  colour from an earlier turn-on.
\<close>

definition off_state :: State where
  "off_state =
     \<lparr>state = ''off'', attr_brightness = None,
      attr_supported_color_modes = Some [''hs'', ''color_temp''],
      attr_supported_features = Some 32, attr_color_mode = None, attr_hs_color = None,
      attr_color_temp = None, attr_rgb_color = None, attr_rgbw_color = None,
      attr_rgbww_color = None, attr_xy_color = None\<rparr>"

definition unavailable_state :: State where
  "unavailable_state = off_state\<lparr>state := ''unavailable'', attr_supported_features := Some 4\<rparr>"

definition dark_states :: "string \<Rightarrow> State option" where
  "dark_states entity_id =
     (if entity_id = ''light.a'' then Some off_state
      else if entity_id = ''light.b'' then Some unavailable_state
      else None)"

definition dark_host :: hass where
  "dark_host = \<lparr>states_get = dark_states, async_call = (\<lambda>s data. True)\<rparr>"

definition coloured_group :: OffsetLightGroup where
  "coloured_group = example_group\<lparr>color_mode := Some HS, hs_color := Some (30, 80)\<rparr>"


section \<open>The colour checklist as the specification words it\<close>

text \<open>
  The specification lists the colour attributes in the order HS, RGB, RGBW, RGBWW, XY,
  COLOR_TEMP and lets the last one supplied win. \<open>supplied_modes\<close> are the modes of the
  attributes a call carries, in that order.
\<close>

definition color_checklist :: "(ColorMode \<times> (kwargs \<Rightarrow> bool)) list" where
  "color_checklist =
     [(HS, \<lambda>kw. kw_hs_color kw \<noteq> None),
      (RGB, \<lambda>kw. kw_rgb_color kw \<noteq> None),
      (RGBW, \<lambda>kw. kw_rgbw_color kw \<noteq> None),
      (RGBWW, \<lambda>kw. kw_rgbww_color kw \<noteq> None),
      (XY, \<lambda>kw. kw_xy_color kw \<noteq> None),
      (COLOR_TEMP, \<lambda>kw. kw_color_temp kw \<noteq> None)]"

definition supplied_modes :: "kwargs \<Rightarrow> ColorMode list" where
  "supplied_modes kw = map fst (filter (\<lambda>(mode, supplied). supplied kw) color_checklist)"

text \<open>A call that carries two colour attributes, and one that carries a single one.\<close>

definition two_colours :: kwargs where
  "two_colours = no_kwargs\<lparr>kw_hs_color := Some (30, 80), kw_color_temp := Some 300\<rparr>"

definition one_colour :: kwargs where
  "one_colour = no_kwargs\<lparr>kw_rgb_color := Some (255, 0, 0)\<rparr>"


section \<open>Configuration as YAML (config_flow.py)\<close>

text \<open>
  The Python values the two conversions handle: scalars (\<^verbatim>\<open>None\<close>, booleans, integers,
  strings), lists, and dictionaries with string keys. Floats are left out: the
  configuration flow stores whole numbers.
\<close>

datatype scalar = SNone | SBool bool | SInt int | SStr string

datatype py = Scalar scalar | PList "py list" | PDict "(string \<times> py) list"

text \<open>
  Formatting in an f-string is \<^verbatim>\<open>str\<close>: a string stands for itself and an integer is
  written in decimal. \<^verbatim>\<open>"\n".join(lines)\<close> puts a newline between the lines.
\<close>

definition newline :: char where
  "newline = CHR 0x0A"

fun join :: "string \<Rightarrow> string list \<Rightarrow> string" where
  "join sep [] = []"
| "join sep [x] = x"
| "join sep (x # y # ys) = x @ sep @ join sep (y # ys)"

definition digit :: "int \<Rightarrow> char" where
  "digit d = char_of (48 + d)"

function decimal :: "int \<Rightarrow> string" where
  "decimal n = (if n < 10 then [digit n] else decimal (n div 10) @ [digit (n mod 10)])"
  by pat_completeness auto
termination
  by (relation "measure nat") auto

declare decimal.simps [simp del]

definition str_int :: "int \<Rightarrow> string" where
  "str_int i = (if i < 0 then CHR ''-'' # decimal (- i) else decimal i)"

fun str :: "scalar \<Rightarrow> string" where
  "str SNone = ''None''"
| "str (SBool b) = (if b then ''True'' else ''False'')"
| "str (SInt i) = str_int i"
| "str (SStr s) = s"

text \<open>
  A structured group configuration as the configuration flow stores it: the name, the
  offset type, and for every light its entity id, offset and bounds. The name is a
  string when it comes from the form (\<^verbatim>\<open>vol.Required(CONF_NAME): str\<close>) and whatever
  scalar the YAML document held when it comes from \<^verbatim>\<open>yaml_to_config\<close>, which does not
  check it. All keys are present, so the defaults of \<^verbatim>\<open>config.get\<close> are never used, and
  \<^verbatim>\<open>int\<close> leaves the whole numbers as they are.
\<close>

record light_config =
  light_entity_id :: string
  light_offset :: int
  light_min_brightness :: int
  light_max_brightness :: int

record group_config =
  cfg_name :: scalar
  cfg_offset_type :: string
  cfg_lights :: "light_config list"

text \<open>\<^verbatim>\<open>config_to_yaml\<close>: three header lines and four lines for every light.\<close>

definition light_lines :: "light_config \<Rightarrow> string list" where
  "light_lines light =
     [''  - entity_id: '' @ light_entity_id light,
      ''    offset: '' @ str_int (light_offset light),
      ''    min_brightness: '' @ str_int (light_min_brightness light),
      ''    max_brightness: '' @ str_int (light_max_brightness light)]"

definition config_to_yaml :: "group_config \<Rightarrow> string" where
  "config_to_yaml config =
     join [newline]
       ([''name: '' @ str (cfg_name config),
         ''offset_type: '' @ cfg_offset_type config,
         ''lights:'']
        @ concat (map light_lines (cfg_lights config)))"

text \<open>The Python dictionary a structured configuration stands for.\<close>

definition light_dict :: "light_config \<Rightarrow> py" where
  "light_dict light =
     PDict [(''entity_id'', Scalar (SStr (light_entity_id light))),
            (''offset'', Scalar (SInt (light_offset light))),
            (''min_brightness'', Scalar (SInt (light_min_brightness light))),
            (''max_brightness'', Scalar (SInt (light_max_brightness light)))]"

definition as_dict :: "group_config \<Rightarrow> py" where
  "as_dict config =
     PDict [(''name'', Scalar (cfg_name config)),
            (''offset_type'', Scalar (SStr (cfg_offset_type config))),
            (''lights'', PList (map light_dict (cfg_lights config)))]"

text \<open>
  \<^verbatim>\<open>yaml_to_config\<close> returns a pair: a configuration and no error, or no configuration
  and an error message. It can also raise: \<^verbatim>\<open>entity_id.startswith\<close> on an entity id that
  is not a string. \<^verbatim>\<open>yaml.safe_load\<close> belongs to the YAML library, not to this
  repository; it is a parameter here, giving the parsed value or the message of its
  \<^verbatim>\<open>YAMLError\<close>.
\<close>

datatype outcome = Config py | Error string | Raises string

definition get_or :: "(string \<times> py) list \<Rightarrow> string \<Rightarrow> py \<Rightarrow> py" where
  "get_or d key fallback = (case map_of d key of None \<Rightarrow> fallback | Some v \<Rightarrow> v)"

definition startswith :: "string \<Rightarrow> string \<Rightarrow> bool" where
  "startswith s p = (take (length p) s = p)"

definition validate_light_entry :: "py \<Rightarrow> nat \<Rightarrow> outcome" where
  "validate_light_entry light index =
     (case light of
        PDict d \<Rightarrow>
          (case map_of d ''entity_id'' of
             None \<Rightarrow> Error (''Light entry '' @ str_int (int index + 1) @ '' missing entity_id'')
           | Some (Scalar (SStr entity_id)) \<Rightarrow>
               if \<not> startswith entity_id ''light.''
               then Error (''Invalid entity_id: '' @ entity_id @ '' (must start with 'light.')'')
               else Config (PDict
                 [(''entity_id'', Scalar (SStr entity_id)),
                  (''offset'', get_or d ''offset'' (Scalar (SInt DEFAULT_OFFSET))),
                  (''min_brightness'',
                     get_or d ''min_brightness'' (Scalar (SInt DEFAULT_MIN_BRIGHTNESS))),
                  (''max_brightness'',
                     get_or d ''max_brightness'' (Scalar (SInt DEFAULT_MAX_BRIGHTNESS)))])
           | Some other \<Rightarrow> Raises ''AttributeError'')
      | other \<Rightarrow> Error (''Light entry '' @ str_int (int index + 1) @ '' must be a dictionary''))"

fun validate_lights :: "py list \<Rightarrow> nat \<Rightarrow> py list \<Rightarrow> outcome" where
  "validate_lights [] i lights_config = Config (PList lights_config)"
| "validate_lights (light # rest) i lights_config =
     (case validate_light_entry light i of
        Config light_config \<Rightarrow> validate_lights rest (Suc i) (lights_config @ [light_config])
      | failure \<Rightarrow> failure)"

definition yaml_to_config :: "(string \<Rightarrow> string + py) \<Rightarrow> string \<Rightarrow> outcome" where
  "yaml_to_config safe_load yaml_string =
     (case safe_load yaml_string of
        Inl e \<Rightarrow> Error (''Invalid YAML syntax: '' @ e)
      | Inr (PDict parsed) \<Rightarrow>
          (case map_of parsed ''name'' of
             None \<Rightarrow> Error ''Missing required field: name''
           | Some name \<Rightarrow>
               (case map_of parsed ''lights'' of
                  None \<Rightarrow> Error ''Missing required field: lights''
                | Some (PList lights) \<Rightarrow>
                    if length lights < 2 then Error ''At least 2 lights are required''
                    else (case validate_lights lights 0 [] of
                            Config lights_config \<Rightarrow>
                              Config (PDict
                                [(''name'', name),
                                 (''offset_type'',
                                    get_or parsed ''offset_type''
                                      (Scalar (SStr DEFAULT_OFFSET_TYPE))),
                                 (''lights'', lights_config)])
                          | failure \<Rightarrow> failure)
                | Some other \<Rightarrow> Error ''lights must be a list''))
      | Inr other \<Rightarrow> Error ''YAML must be a dictionary/mapping'')"

text \<open>
  Two configurations that differ only in the name: the string \<^verbatim>\<open>"123"\<close>, which a user
  can type into the form, and the integer 123.
\<close>

definition two_lights :: "light_config list" where
  "two_lights =
     [\<lparr>light_entity_id = ''light.a'', light_offset = 0,
       light_min_brightness = 1, light_max_brightness = 100\<rparr>,
      \<lparr>light_entity_id = ''light.b'', light_offset = - 25,
       light_min_brightness = 1, light_max_brightness = 100\<rparr>]"

definition named_123 :: group_config where
  "named_123 =
     \<lparr>cfg_name = SStr ''123'', cfg_offset_type = ''absolute'', cfg_lights = two_lights\<rparr>"

definition named_int_123 :: group_config where
  "named_int_123 = named_123\<lparr>cfg_name := SInt 123\<rparr>"

text \<open>The YAML text both of them give.\<close>

definition yaml_123 :: string where
  "yaml_123 = join [newline]
     [''name: 123'', ''offset_type: absolute'', ''lights:'',
      ''  - entity_id: light.a'', ''    offset: 0'',
      ''    min_brightness: 1'', ''    max_brightness: 100'',
      ''  - entity_id: light.b'', ''    offset: -25'',
      ''    min_brightness: 1'', ''    max_brightness: 100'']"

text \<open>
  What \<^verbatim>\<open>yaml.safe_load\<close> returns on that text: YAML reads the plain scalar \<^verbatim>\<open>123\<close> as
  an integer.
\<close>

definition safe_load_123 :: "string \<Rightarrow> string + py" where
  "safe_load_123 s = (if s = yaml_123 then Inr (as_dict named_int_123) else Inl ''not read'')"


section \<open>Properties of the brightness mapping\<close>

text \<open>
  C1. Absolute mode is claimed to return the exact value of
  \<open>(m / 255 * 100 + offset) / 100 * 255\<close>, brought to a whole number and clamped to the
  member's bounds. At master brightness 15 with offset 0 and the default bounds (1 and
  100 percent) the exact value is the whole number 15, so the claimed result is 15
  under every rounding; the code computes in binary64, gets a value just below 15, and
  truncates it to 14.
\<close>

theorem absolute_mode_master_15_offset_0:
  "calculate_light_brightness
     [(''light.a'', \<lparr>conf_offset = 0, conf_min_brightness = 1, conf_max_brightness = 100\<rparr>)]
     ''absolute'' ''light.a'' 15 = 14
   \<and> spec_absolute_exact 15 0 = 15
   \<and> spec_absolute 15 0 1 100 = 15"
  by code_simp

text \<open>
  C2. Relative mode is claimed to return the exact value of \<open>m * (100 + offset) / 100\<close>,
  brought to a whole number and clamped. At master brightness 25 with offset 16 the
  exact value is the whole number 29; the code multiplies 25 by the binary64 number
  nearest to 1.16, gets a value just below 29, and truncates it to 28.
\<close>

theorem relative_mode_master_25_offset_16:
  "calculate_light_brightness
     [(''light.a'', \<lparr>conf_offset = 16, conf_min_brightness = 1, conf_max_brightness = 100\<rparr>)]
     ''relative'' ''light.a'' 25 = 28
   \<and> spec_relative_exact 25 16 = 29
   \<and> spec_relative 25 16 1 100 = 29"
  by code_simp

text \<open>
  C3. The worked example: master brightness 200, offset -25, bounds 1 and 100 percent,
  absolute mode. The claimed result is 135, reached by truncating the master
  percentage to 78 on the way. The code keeps the fraction: 78.43 - 25 = 53.43 percent,
  which is 136.25 on the 0-255 scale, truncated to 136 and left alone by the bounds
  2 and 255.
\<close>

theorem example_200_minus_25_is_not_135:
  "calculate_light_brightness
     [(''light.a'', \<lparr>conf_offset = - 25, conf_min_brightness = 1, conf_max_brightness = 100\<rparr>)]
     ''absolute'' ''light.a'' 200 \<noteq> 135"
  by code_simp

text \<open>
  C3, amended. For master brightness 200, offset -25 and bounds 1 and 100 percent in
  absolute mode the mapping returns 136: the target before clamping is 136, and the
  bounds on the 0-255 scale are 2 and 255.
\<close>

theorem example_200_minus_25_is_136:
  "calculate_light_brightness
     [(''light.a'', \<lparr>conf_offset = - 25, conf_min_brightness = 1, conf_max_brightness = 100\<rparr>)]
     ''absolute'' ''light.a'' 200 = 136
   \<and> pct_to_255 1 = 2 \<and> pct_to_255 100 = 255
   \<and> absolute_target 200 (- 25) = 136"
  by code_simp


section \<open>Properties of the group controller\<close>

subsection \<open>Helper lemmas\<close>

lemma store_color_frame:
  "master_brightness (store_color_from_kwargs self kw) = master_brightness self"
  "entities_config (store_color_from_kwargs self kw) = entities_config self"
  "offset_type (store_color_from_kwargs self kw) = offset_type self"
  "applying_state (store_color_from_kwargs self kw) = applying_state self"
  "is_on (store_color_from_kwargs self kw) = is_on self"
  by (simp_all add: store_color_from_kwargs_def store_hs_def store_rgb_def store_rgbw_def
      store_rgbww_def store_xy_def store_color_temp_def split: option.splits)

lemma turn_on_members_no_guard:
  "filter is_guard_write (fst (turn_on_members h self kw es)) = []"
  by (induction es) (auto simp: Let_def split: prod.splits)

lemma turn_on_members_calls:
  "service_calls (fst (turn_on_members h self kw es)) =
     map (turn_on_service_data self kw)
       (take (length (service_calls (fst (turn_on_members h self kw es)))) es)"
  by (induction es) (auto simp: Let_def split: prod.splits)

lemma turn_on_members_calls_ok:
  "snd (turn_on_members h self kw es) = Inr () \<Longrightarrow>
   service_calls (fst (turn_on_members h self kw es)) = map (turn_on_service_data self kw) es"
  by (induction es) (auto simp: Let_def split: prod.splits if_splits)

lemma service_calls_append [simp]:
  "service_calls (xs @ ys) = service_calls xs @ service_calls ys"
  by (induction xs rule: service_calls.induct) auto

lemma turn_on_service_data_cong:
  "entities_config a = entities_config b \<Longrightarrow> offset_type a = offset_type b \<Longrightarrow>
   master_brightness a = master_brightness b \<Longrightarrow>
   turn_on_service_data a kw = turn_on_service_data b kw"
  by (rule ext) (simp add: turn_on_service_data_def member_brightness_def)

lemma on_states_scan_on:
  "on_states (scan_features st (scan_modes st (scan_on e st acc))) =
     on_states acc @ (if state st = STATE_ON then [e] else [])"
  by (simp add: scan_features_def scan_modes_def scan_on_def Let_def split: option.splits)

lemma on_states_scan_members:
  "on_states (scan_members h es acc) = on_states acc @ filter (reports_on h) es"
  by (induction es arbitrary: acc)
     (auto simp: on_states_scan_on reports_on_def STATE_ON_def STATE_UNAVAILABLE_def
        STATE_UNKNOWN_def split: option.splits)


lemma async_turn_off_master:
  "master_brightness (fst (async_turn_off h self kw)) = master_brightness self"
  "entities_config (fst (async_turn_off h self kw)) = entities_config self"
  "offset_type (fst (async_turn_off h self kw)) = offset_type self"
  by (simp_all add: async_turn_off_def finally_clear_def turn_off_try_def Let_def)

lemma async_turn_on_calls:
  "service_calls (fst (snd (async_turn_on h self kw))) =
     service_calls (fst (turn_on_members h
        (store_color_from_kwargs
           (case kw_brightness kw of None \<Rightarrow> self\<lparr>applying_state := True\<rparr>
            | Some b \<Rightarrow> self\<lparr>applying_state := True, master_brightness := b\<rparr>) kw)
        kw (map fst (entities_config self))))"
  by (simp add: async_turn_on_def finally_clear_def turn_on_try_def Let_def store_color_frame
      split: prod.splits sum.splits option.splits)

lemma turn_on_members_dispatch:
  "service_calls (fst (turn_on_members h self kw es)) =
     map (turn_on_service_data self kw)
       (takeWhile (\<lambda>e. async_call h SERVICE_TURN_ON (turn_on_service_data self kw e)) es
        @ take 1 (dropWhile (\<lambda>e. async_call h SERVICE_TURN_ON (turn_on_service_data self kw e)) es))"
  by (induction es) (auto simp: Let_def split: prod.splits)

lemma turn_on_members_result:
  "snd (turn_on_members h self kw es) =
     (if list_all (\<lambda>e. async_call h SERVICE_TURN_ON (turn_on_service_data self kw e)) es
      then Inr () else Inl ServiceCallFailed)"
  by (induction es) (auto simp: Let_def split: prod.splits)

lemma async_turn_on_result:
  "snd (snd (async_turn_on h self kw)) =
     snd (turn_on_members h
        (store_color_from_kwargs
           (case kw_brightness kw of None \<Rightarrow> self\<lparr>applying_state := True\<rparr>
            | Some b \<Rightarrow> self\<lparr>applying_state := True, master_brightness := b\<rparr>) kw)
        kw (map fst (entities_config self)))"
  by (simp add: async_turn_on_def finally_clear_def turn_on_try_def Let_def store_color_frame
      split: prod.splits sum.splits option.splits)

lemma async_turn_on_is_on:
  "is_on (fst (async_turn_on h self kw)) =
     (case snd (snd (async_turn_on h self kw)) of Inr u \<Rightarrow> True | Inl e \<Rightarrow> is_on self)"
  by (simp add: async_turn_on_def finally_clear_def turn_on_try_def Let_def store_color_frame
      split: prod.splits sum.splits option.splits)

subsection \<open>Turn-off keeps the master brightness\<close>

text \<open>
  C4. Turn-off leaves the stored master brightness as it was, whether the service call
  succeeds or raises. A turn-on that follows, with no brightness among its arguments,
  keeps the master brightness too, and fans out the member commands computed from the
  object as it was before the turn-off: the calls made are the service data of the
  members, in order, for every member the host accepts and for the first one it
  refuses, after which the loop ends. When the host accepts the call of every member,
  each member receives its command, the operation returns normally and the group is on.
\<close>

theorem turn_off_then_turn_on:
  assumes "kw_brightness kw_on = None"
  shows "master_brightness (fst (async_turn_off h self kw_off)) = master_brightness self
    \<and> master_brightness (fst (async_turn_on h' (fst (async_turn_off h self kw_off)) kw_on))
        = master_brightness self
    \<and> service_calls (fst (snd (async_turn_on h' (fst (async_turn_off h self kw_off)) kw_on)))
        = map (turn_on_service_data self kw_on)
            (take (length (service_calls
                     (fst (snd (async_turn_on h' (fst (async_turn_off h self kw_off)) kw_on)))))
               (map fst (entities_config self)))
    \<and> service_calls (fst (snd (async_turn_on h' (fst (async_turn_off h self kw_off)) kw_on)))
        = map (turn_on_service_data self kw_on)
            (takeWhile (\<lambda>e. async_call h' SERVICE_TURN_ON (turn_on_service_data self kw_on e))
               (map fst (entities_config self))
             @ take 1
                (dropWhile (\<lambda>e. async_call h' SERVICE_TURN_ON (turn_on_service_data self kw_on e))
                   (map fst (entities_config self))))
    \<and> (list_all (\<lambda>e. async_call h' SERVICE_TURN_ON (turn_on_service_data self kw_on e))
          (map fst (entities_config self)) \<longrightarrow>
        service_calls (fst (snd (async_turn_on h' (fst (async_turn_off h self kw_off)) kw_on)))
          = map (turn_on_service_data self kw_on) (map fst (entities_config self))
        \<and> snd (snd (async_turn_on h' (fst (async_turn_off h self kw_off)) kw_on)) = Inr ()
        \<and> is_on (fst (async_turn_on h' (fst (async_turn_off h self kw_off)) kw_on)))"
proof -
  let ?off = "fst (async_turn_off h self kw_off)"
  let ?on = "async_turn_on h' ?off kw_on"
  let ?g = "store_color_from_kwargs (?off\<lparr>applying_state := True\<rparr>) kw_on"
  let ?es = "map fst (entities_config self)"
  let ?ok = "\<lambda>e. async_call h' SERVICE_TURN_ON (turn_on_service_data self kw_on e)"
  have cfg: "entities_config ?g = entities_config self" "offset_type ?g = offset_type self"
    "master_brightness ?g = master_brightness self"
    by (simp_all add: store_color_frame async_turn_off_master)
  have sd: "turn_on_service_data ?g kw_on = turn_on_service_data self kw_on"
    by (rule turn_on_service_data_cong) (simp_all add: cfg)
  have calls: "service_calls (fst (snd ?on)) =
      service_calls (fst (turn_on_members h' ?g kw_on ?es))"
    using assms by (simp add: async_turn_on_calls async_turn_off_master)
  have result: "snd (snd ?on) = snd (turn_on_members h' ?g kw_on ?es)"
    using assms by (simp add: async_turn_on_result async_turn_off_master)
  have m: "master_brightness (fst ?on) = master_brightness self"
    using assms
    by (simp add: async_turn_on_def finally_clear_def turn_on_try_def Let_def store_color_frame
        async_turn_off_master split: prod.splits sum.splits)
  have c1: "master_brightness ?off = master_brightness self"
    by (simp add: async_turn_off_master)
  have c3: "service_calls (fst (snd ?on)) =
      map (turn_on_service_data self kw_on) (take (length (service_calls (fst (snd ?on)))) ?es)"
    unfolding calls
    using turn_on_members_calls [of h' ?g kw_on ?es]
    by (simp add: sd)
  have c4: "service_calls (fst (snd ?on)) =
      map (turn_on_service_data self kw_on) (takeWhile ?ok ?es @ take 1 (dropWhile ?ok ?es))"
    unfolding calls
    using turn_on_members_dispatch [of h' ?g kw_on ?es]
    by (simp only: sd)
  have res: "snd (snd ?on) = (if list_all ?ok ?es then Inr () else Inl ServiceCallFailed)"
    unfolding result
    using turn_on_members_result [of h' ?g kw_on ?es]
    by (simp only: sd)
  have c5: "service_calls (fst (snd ?on)) = map (turn_on_service_data self kw_on) ?es
      \<and> snd (snd ?on) = Inr () \<and> is_on (fst ?on)" if ok: "list_all ?ok ?es"
  proof -
    have all: "takeWhile ?ok ?es = ?es" "dropWhile ?ok ?es = []"
      using ok by (simp_all add: list_all_iff)
    have r: "snd (snd ?on) = Inr ()"
      using ok by (simp only: res if_True)
    have calls_all: "service_calls (fst (snd ?on)) = map (turn_on_service_data self kw_on) ?es"
      using c4 by (simp only: all take.simps append_Nil2)
    have "is_on (fst ?on)"
      using async_turn_on_is_on [of h' ?off kw_on] by (simp add: r)
    with r calls_all show ?thesis by simp
  qed
  from c1 m c3 c4 c5 show ?thesis
    by blast
qed

theorem turn_off_then_turn_on_witness:
  "kw_brightness no_kwargs = None
   \<and> list_all (\<lambda>e. async_call obliging_host SERVICE_TURN_ON
                    (turn_on_service_data example_group no_kwargs e))
        (map fst (entities_config example_group))
   \<and> master_brightness (fst (async_turn_off obliging_host example_group no_kwargs)) = 200
   \<and> map sd_entity_id (service_calls (fst (snd (async_turn_on obliging_host
         (fst (async_turn_off obliging_host example_group no_kwargs)) no_kwargs))))
       = [Single ''light.a'', Single ''light.b'']
   \<and> map sd_brightness (service_calls (fst (snd (async_turn_on obliging_host
         (fst (async_turn_off obliging_host example_group no_kwargs)) no_kwargs))))
       = [Some 200, Some 136]
   \<and> snd (snd (async_turn_on obliging_host
         (fst (async_turn_off obliging_host example_group no_kwargs)) no_kwargs)) = Inr ()"
proof -
  have h: "kw_brightness no_kwargs = None"
    by (simp add: no_kwargs_def)
  have k: "map fst (entities_config example_group) = [''light.a'', ''light.b'']"
    by (simp add: example_group_def init_def example_members_def)
  have ok: "list_all (\<lambda>e. async_call obliging_host SERVICE_TURN_ON
                    (turn_on_service_data example_group no_kwargs e))
        (map fst (entities_config example_group))"
    by (simp add: obliging_host_def k)
  have m: "master_brightness example_group = 200"
    by (simp add: example_group_def)
  have b: "sd_brightness (turn_on_service_data example_group no_kwargs ''light.a'') = Some 200"
    "sd_brightness (turn_on_service_data example_group no_kwargs ''light.b'') = Some 136"
    by code_simp+
  have e: "sd_entity_id (turn_on_service_data example_group no_kwargs x) = Single x" for x
    by (simp add: turn_on_service_data_def)
  show ?thesis
    using turn_off_then_turn_on [OF h, of obliging_host example_group no_kwargs obliging_host] ok
    by (simp add: h m k b e)
qed


subsection \<open>The guard flag\<close>

lemma filter_guard_append_service [simp]:
  "filter is_guard_write (evs @ [Write_ha_state]) = filter is_guard_write evs"
  by simp

lemma turn_on_try_no_guard:
  "filter is_guard_write (fst (snd (turn_on_try h self kw))) = []"
  using turn_on_members_no_guard [of h _ kw]
  by (simp add: turn_on_try_def Let_def split: prod.splits sum.splits)
     (metis fst_conv)

lemma turn_on_try_applying:
  "applying_state (fst (turn_on_try h self kw)) = applying_state self"
  by (simp add: turn_on_try_def Let_def store_color_frame split: prod.splits sum.splits option.splits)

lemma turn_off_try_no_guard:
  "filter is_guard_write (fst (snd (turn_off_try h self kw))) = []"
  by (simp add: turn_off_try_def Let_def)

lemma finally_clear_proj:
  "fst (finally_clear body) = (fst body)\<lparr>applying_state := False\<rparr>"
  "fst (snd (finally_clear body)) = fst (snd body) @ [Set_applying_state False]"
  "snd (snd (finally_clear body)) = snd (snd body)"
  by (cases body; simp add: finally_clear_def)+

lemma async_turn_on_proj:
  "fst (async_turn_on h self kw)
     = fst (finally_clear (turn_on_try h (self\<lparr>applying_state := True\<rparr>) kw))"
  "fst (snd (async_turn_on h self kw))
     = Set_applying_state True
       # fst (snd (finally_clear (turn_on_try h (self\<lparr>applying_state := True\<rparr>) kw)))"
  "snd (snd (async_turn_on h self kw))
     = snd (snd (finally_clear (turn_on_try h (self\<lparr>applying_state := True\<rparr>) kw)))"
  by (simp_all add: async_turn_on_def split: prod.splits)

lemma async_turn_off_proj:
  "fst (async_turn_off h self kw)
     = fst (finally_clear (turn_off_try h (self\<lparr>applying_state := True\<rparr>) kw))"
  "fst (snd (async_turn_off h self kw))
     = Set_applying_state True
       # fst (snd (finally_clear (turn_off_try h (self\<lparr>applying_state := True\<rparr>) kw)))"
  "snd (snd (async_turn_off h self kw))
     = snd (snd (finally_clear (turn_off_try h (self\<lparr>applying_state := True\<rparr>) kw)))"
  by (simp_all add: async_turn_off_def split: prod.splits)

text \<open>
  C5. In turn-on and in turn-off the guard flag is written exactly twice: set as the
  first thing the operation does, hence before any service call, and cleared as the
  last thing it does, on every path. The flag is set in the object throughout the body,
  it is clear in the object the operation leaves behind, and an error of a service call
  still reaches the caller.
\<close>

theorem guard_flag_set_and_cleared_once:
  "filter is_guard_write (fst (snd (async_turn_on h self kw)))
      = [Set_applying_state True, Set_applying_state False]
   \<and> hd (fst (snd (async_turn_on h self kw))) = Set_applying_state True
   \<and> last (fst (snd (async_turn_on h self kw))) = Set_applying_state False
   \<and> \<not> applying_state (fst (async_turn_on h self kw))
   \<and> snd (snd (async_turn_on h self kw))
      = snd (snd (turn_on_try h (self\<lparr>applying_state := True\<rparr>) kw))
   \<and> applying_state (fst (turn_on_try h (self\<lparr>applying_state := True\<rparr>) kw))
   \<and> filter is_guard_write (fst (snd (async_turn_off h self kw)))
      = [Set_applying_state True, Set_applying_state False]
   \<and> hd (fst (snd (async_turn_off h self kw))) = Set_applying_state True
   \<and> last (fst (snd (async_turn_off h self kw))) = Set_applying_state False
   \<and> \<not> applying_state (fst (async_turn_off h self kw))
   \<and> snd (snd (async_turn_off h self kw))
      = snd (snd (turn_off_try h (self\<lparr>applying_state := True\<rparr>) kw))"
  by (simp add: async_turn_on_proj async_turn_off_proj finally_clear_proj
      turn_on_try_no_guard turn_off_try_no_guard turn_on_try_applying)


subsection \<open>Passive resynchronization\<close>

lemma reports_on_not_skipped:
  "reports_on h e = (\<not> skipped h e \<and> reports_on h e)"
  by (auto simp: reports_on_def skipped_def STATE_ON_def STATE_UNAVAILABLE_def STATE_UNKNOWN_def
      split: option.splits)

lemma update_is_on:
  "is_on (update_state_from_members h self)
     = (on_states (scan_members h (map fst (entities_config self)) empty_scan) \<noteq> [])"
proof (cases "on_states (scan_members h (map fst (entities_config self)) empty_scan)")
  case Nil
  then show ?thesis
    by (simp add: update_state_from_members_def Let_def)
next
  case (Cons first others)
  then show ?thesis
    by (cases "states_get h first")
       (simp_all add: update_state_from_members_def Let_def copy_color_def)
qed

lemma update_master:
  "master_brightness (update_state_from_members h self) = master_brightness self"
proof (cases "on_states (scan_members h (map fst (entities_config self)) empty_scan)")
  case Nil
  then show ?thesis
    by (simp add: update_state_from_members_def Let_def)
next
  case (Cons first others)
  then show ?thesis
    by (cases "states_get h first")
       (simp_all add: update_state_from_members_def Let_def copy_color_def)
qed

text \<open>
  C6. After a resynchronization pass the group is on exactly when some member
  observation reports on. The members counted are those that report on among the ones
  not skipped; a member whose observation is absent, unavailable or unknown is never
  among them.
\<close>

theorem resync_on_iff_some_member_on:
  "is_on (update_state_from_members h self)
     = (\<exists>e \<in> set (map fst (entities_config self)). reports_on h e)
   \<and> on_states (scan_members h (map fst (entities_config self)) empty_scan)
     = filter (\<lambda>e. \<not> skipped h e \<and> reports_on h e) (map fst (entities_config self))"
proof -
  have os: "on_states (scan_members h (map fst (entities_config self)) empty_scan)
      = filter (reports_on h) (map fst (entities_config self))"
    by (simp add: on_states_scan_members empty_scan_def)
  have "filter (reports_on h) (map fst (entities_config self))
      = filter (\<lambda>e. \<not> skipped h e \<and> reports_on h e) (map fst (entities_config self))"
    using reports_on_not_skipped [of h] by (intro filter_cong) auto
  moreover have "is_on (update_state_from_members h self)
      = (\<exists>e \<in> set (map fst (entities_config self)). reports_on h e)"
    unfolding update_is_on os by (auto simp: filter_empty_conv)
  ultimately show ?thesis using os by simp
qed

text \<open>
  C7. No resynchronization pass changes the stored master brightness. A pass in which no
  member reports on leaves the colour mode and the six colour payloads as they were,
  turns the group off, and sets the supported colour modes and features to what the scan
  of the members collected (brightness-only when no mode was collected).
\<close>

theorem resync_without_member_on:
  "master_brightness (update_state_from_members h self) = master_brightness self
   \<and> ((\<forall>e \<in> set (map fst (entities_config self)). \<not> reports_on h e) \<longrightarrow>
        color_mode (update_state_from_members h self) = color_mode self
      \<and> hs_color (update_state_from_members h self) = hs_color self
      \<and> rgb_color (update_state_from_members h self) = rgb_color self
      \<and> rgbw_color (update_state_from_members h self) = rgbw_color self
      \<and> rgbww_color (update_state_from_members h self) = rgbww_color self
      \<and> xy_color (update_state_from_members h self) = xy_color self
      \<and> color_temp (update_state_from_members h self) = color_temp self
      \<and> \<not> is_on (update_state_from_members h self)
      \<and> supported_color_modes (update_state_from_members h self)
         = (let modes = color_modes (scan_members h (map fst (entities_config self)) empty_scan)
            in if modes = {} then {BRIGHTNESS} else modes)
      \<and> supported_features (update_state_from_members h self)
         = features (scan_members h (map fst (entities_config self)) empty_scan))"
proof -
  have "on_states (scan_members h (map fst (entities_config self)) empty_scan) = []"
    if "\<forall>e \<in> set (map fst (entities_config self)). \<not> reports_on h e"
    using that by (simp add: on_states_scan_members empty_scan_def filter_empty_conv)
  then show ?thesis
    by (simp add: update_master) (simp add: update_state_from_members_def Let_def)
qed


theorem resync_without_member_on_witness:
  "\<not> reports_on dark_host ''light.a'' \<and> \<not> reports_on dark_host ''light.b''
   \<and> map fst (entities_config coloured_group) = [''light.a'', ''light.b'']
   \<and> master_brightness (update_state_from_members dark_host coloured_group) = 200
   \<and> color_mode (update_state_from_members dark_host coloured_group) = Some HS
   \<and> hs_color (update_state_from_members dark_host coloured_group) = Some (30, 80)
   \<and> \<not> is_on (update_state_from_members dark_host coloured_group)
   \<and> is_on coloured_group
   \<and> supported_color_modes coloured_group = {}
   \<and> supported_color_modes (update_state_from_members dark_host coloured_group)
      = {HS, COLOR_TEMP}
   \<and> supported_features (update_state_from_members dark_host coloured_group) = 32"
proof -
  have k: "map fst (entities_config coloured_group) = [''light.a'', ''light.b'']"
    by (simp add: coloured_group_def example_group_def init_def example_members_def)
  have r: "\<not> reports_on dark_host ''light.a''" "\<not> reports_on dark_host ''light.b''"
    by (simp_all add: reports_on_def dark_host_def dark_states_def off_state_def
        unavailable_state_def STATE_ON_def)
  have h: "\<forall>e \<in> set (map fst (entities_config coloured_group)). \<not> reports_on dark_host e"
    using r by (simp add: k)
  have sc: "color_modes (scan_members dark_host [''light.a'', ''light.b''] empty_scan)
       = {HS, COLOR_TEMP}"
    "features (scan_members dark_host [''light.a'', ''light.b''] empty_scan) = 32"
    by (auto simp: dark_host_def dark_states_def off_state_def unavailable_state_def
        STATE_ON_def STATE_UNAVAILABLE_def STATE_UNKNOWN_def scan_on_def scan_modes_def
        scan_features_def empty_scan_def ColorMode_of_def)
  have g: "master_brightness coloured_group = 200" "color_mode coloured_group = Some HS"
    "hs_color coloured_group = Some (30, 80)" "is_on coloured_group"
    "supported_color_modes coloured_group = {}"
    by (simp_all add: coloured_group_def example_group_def init_def)
  show ?thesis
    using resync_without_member_on [of dark_host coloured_group] h r
    by (simp add: k sc g del: scan_members.simps)
qed

subsection \<open>The brightness query\<close>

text \<open>
  C10. The \<^verbatim>\<open>brightness\<close> property is \<open>None\<close> whenever the group is off, although the
  master brightness is still stored, and is the stored master brightness while the group
  is on.
\<close>

theorem brightness_query:
  "(\<not> is_on self \<longrightarrow> brightness self = None)
   \<and> (is_on self \<longrightarrow> brightness self = Some (master_brightness self))"
  by (simp add: brightness_def)

theorem brightness_query_witness:
  "is_on example_group \<and> brightness example_group = Some 200
   \<and> \<not> is_on (fst (async_turn_off obliging_host example_group no_kwargs))
   \<and> master_brightness (fst (async_turn_off obliging_host example_group no_kwargs)) = 200
   \<and> brightness (fst (async_turn_off obliging_host example_group no_kwargs)) = None"
proof -
  have a: "is_on example_group" "master_brightness example_group = 200"
    by (simp_all add: example_group_def)
  have b: "\<not> is_on (fst (async_turn_off obliging_host example_group no_kwargs))"
    by (simp add: async_turn_off_proj finally_clear_proj turn_off_try_def obliging_host_def)
  show ?thesis
    using brightness_query [of example_group]
      brightness_query [of "fst (async_turn_off obliging_host example_group no_kwargs)"] a b
    by (simp add: async_turn_off_master)
qed


subsection \<open>Colour attributes of turn-on\<close>

lemma store_color_mode:
  "color_mode (store_color_from_kwargs self kw)
     = (if supplied_modes kw = [] then color_mode self else Some (last (supplied_modes kw)))"
  by (simp add: store_color_from_kwargs_def store_hs_def store_rgb_def store_rgbw_def
      store_rgbww_def store_xy_def store_color_temp_def supplied_modes_def color_checklist_def
      split: option.splits)

lemma store_color_payloads:
  "hs_color (store_color_from_kwargs self kw)
     = (case kw_hs_color kw of None \<Rightarrow> hs_color self | Some v \<Rightarrow> Some v)"
  "rgb_color (store_color_from_kwargs self kw)
     = (case kw_rgb_color kw of None \<Rightarrow> rgb_color self | Some v \<Rightarrow> Some v)"
  "rgbw_color (store_color_from_kwargs self kw)
     = (case kw_rgbw_color kw of None \<Rightarrow> rgbw_color self | Some v \<Rightarrow> Some v)"
  "rgbww_color (store_color_from_kwargs self kw)
     = (case kw_rgbww_color kw of None \<Rightarrow> rgbww_color self | Some v \<Rightarrow> Some v)"
  "xy_color (store_color_from_kwargs self kw)
     = (case kw_xy_color kw of None \<Rightarrow> xy_color self | Some v \<Rightarrow> Some v)"
  "color_temp (store_color_from_kwargs self kw)
     = (case kw_color_temp kw of None \<Rightarrow> color_temp self | Some v \<Rightarrow> Some v)"
  by (simp_all add: store_color_from_kwargs_def store_hs_def store_rgb_def store_rgbw_def
      store_rgbww_def store_xy_def store_color_temp_def split: option.splits)

lemma async_turn_on_color:
  "color_mode (fst (async_turn_on h self kw)) = color_mode (store_color_from_kwargs self kw)"
  "hs_color (fst (async_turn_on h self kw)) = hs_color (store_color_from_kwargs self kw)"
  "rgb_color (fst (async_turn_on h self kw)) = rgb_color (store_color_from_kwargs self kw)"
  "rgbw_color (fst (async_turn_on h self kw)) = rgbw_color (store_color_from_kwargs self kw)"
  "rgbww_color (fst (async_turn_on h self kw)) = rgbww_color (store_color_from_kwargs self kw)"
  "xy_color (fst (async_turn_on h self kw)) = xy_color (store_color_from_kwargs self kw)"
  "color_temp (fst (async_turn_on h self kw)) = color_temp (store_color_from_kwargs self kw)"
  by (simp_all add: async_turn_on_proj finally_clear_proj turn_on_try_def Let_def
      store_color_mode store_color_payloads split: prod.splits sum.splits option.splits)

text \<open>
  C8. When turn-on receives colour attributes, the group's colour mode afterwards is the
  mode of the last supplied attribute in the order HS, RGB, RGBW, RGBWW, XY, COLOR_TEMP;
  with exactly one attribute supplied it is that attribute's mode. Every supplied payload
  is stored in the group's colour state. This holds whether or not the member calls that
  follow succeed.
\<close>

theorem turn_on_color_mode_last_supplied:
  "(supplied_modes kw \<noteq> [] \<longrightarrow>
      color_mode (fst (async_turn_on h self kw)) = Some (last (supplied_modes kw)))
   \<and> (\<forall>mode. supplied_modes kw = [mode] \<longrightarrow>
      color_mode (fst (async_turn_on h self kw)) = Some mode)
   \<and> hs_color (fst (async_turn_on h self kw))
      = (case kw_hs_color kw of None \<Rightarrow> hs_color self | Some v \<Rightarrow> Some v)
   \<and> rgb_color (fst (async_turn_on h self kw))
      = (case kw_rgb_color kw of None \<Rightarrow> rgb_color self | Some v \<Rightarrow> Some v)
   \<and> rgbw_color (fst (async_turn_on h self kw))
      = (case kw_rgbw_color kw of None \<Rightarrow> rgbw_color self | Some v \<Rightarrow> Some v)
   \<and> rgbww_color (fst (async_turn_on h self kw))
      = (case kw_rgbww_color kw of None \<Rightarrow> rgbww_color self | Some v \<Rightarrow> Some v)
   \<and> xy_color (fst (async_turn_on h self kw))
      = (case kw_xy_color kw of None \<Rightarrow> xy_color self | Some v \<Rightarrow> Some v)
   \<and> color_temp (fst (async_turn_on h self kw))
      = (case kw_color_temp kw of None \<Rightarrow> color_temp self | Some v \<Rightarrow> Some v)"
  by (simp add: async_turn_on_color store_color_mode store_color_payloads)

theorem turn_on_color_mode_last_supplied_witness:
  "supplied_modes two_colours = [HS, COLOR_TEMP]
   \<and> color_mode (fst (async_turn_on obliging_host example_group two_colours)) = Some COLOR_TEMP
   \<and> hs_color (fst (async_turn_on obliging_host example_group two_colours)) = Some (30, 80)
   \<and> color_temp (fst (async_turn_on obliging_host example_group two_colours)) = Some 300
   \<and> supplied_modes one_colour = [RGB]
   \<and> color_mode (fst (async_turn_on obliging_host example_group one_colour)) = Some RGB
   \<and> rgb_color (fst (async_turn_on obliging_host example_group one_colour)) = Some (255, 0, 0)"
proof -
  have two: "supplied_modes two_colours = [HS, COLOR_TEMP]"
    by (simp add: supplied_modes_def color_checklist_def two_colours_def no_kwargs_def)
  have one: "supplied_modes one_colour = [RGB]"
    by (simp add: supplied_modes_def color_checklist_def one_colour_def no_kwargs_def)
  have kw: "kw_hs_color two_colours = Some (30, 80)" "kw_color_temp two_colours = Some 300"
    "kw_rgb_color one_colour = Some (255, 0, 0)"
    by (simp_all add: two_colours_def one_colour_def no_kwargs_def)
  show ?thesis
    using turn_on_color_mode_last_supplied [of two_colours obliging_host example_group]
      turn_on_color_mode_last_supplied [of one_colour obliging_host example_group]
    by (simp add: two one kw)
qed


section \<open>Properties of the YAML conversions\<close>

text \<open>
  When the parser hands back the dictionary of the configuration, \<^verbatim>\<open>yaml_to_config\<close>
  accepts it and returns it, provided there are at least two lights and every entity id
  starts with \<^verbatim>\<open>light.\<close>.
\<close>

lemma validate_lights_of_dicts:
  "\<forall>light \<in> set ls. startswith (light_entity_id light) ''light.'' \<Longrightarrow>
   validate_lights (map light_dict ls) i acc = Config (PList (acc @ map light_dict ls))"
  by (induction ls arbitrary: i acc)
     (simp_all add: validate_light_entry_def light_dict_def get_or_def)

lemma yaml_to_config_of_document:
  assumes "2 \<le> length (cfg_lights config)"
    and "\<forall>light \<in> set (cfg_lights config). startswith (light_entity_id light) ''light.''"
    and "safe_load (config_to_yaml config) = Inr (as_dict config)"
  shows "yaml_to_config safe_load (config_to_yaml config) = Config (as_dict config)"
  using assms
  by (simp add: yaml_to_config_def as_dict_def get_or_def validate_lights_of_dicts)

text \<open>
  C9. The round trip through \<^verbatim>\<open>config_to_yaml\<close> and \<^verbatim>\<open>yaml_to_config\<close> is claimed to give
  back every valid configuration. \<^verbatim>\<open>config_to_yaml\<close> writes the name without quotes, so
  the name \<^verbatim>\<open>"123"\<close> and the integer name 123 give the same text. Read back with YAML's
  reading of that text, the configuration named \<^verbatim>\<open>"123"\<close> returns with the integer name;
  and whatever the parser does, it cannot give both configurations back.
\<close>

theorem name_123_does_not_round_trip:
  "2 \<le> length (cfg_lights named_123)
   \<and> list_all (\<lambda>light. startswith (light_entity_id light) ''light.'') (cfg_lights named_123)
   \<and> config_to_yaml named_123 = yaml_123
   \<and> config_to_yaml named_int_123 = yaml_123
   \<and> as_dict named_123 \<noteq> as_dict named_int_123
   \<and> yaml_to_config safe_load_123 (config_to_yaml named_123) = Config (as_dict named_int_123)
   \<and> yaml_to_config safe_load_123 (config_to_yaml named_123) \<noteq> Config (as_dict named_123)
   \<and> (\<forall>safe_load.
        \<not> (yaml_to_config safe_load (config_to_yaml named_123) = Config (as_dict named_123)
           \<and> yaml_to_config safe_load (config_to_yaml named_int_123)
               = Config (as_dict named_int_123)))"
proof -
  have valid: "2 \<le> length (cfg_lights named_123)"
    "list_all (\<lambda>light. startswith (light_entity_id light) ''light.'') (cfg_lights named_123)"
    by (simp_all add: named_123_def two_lights_def startswith_def)
  have same: "config_to_yaml named_123 = yaml_123" "config_to_yaml named_int_123 = yaml_123"
    by code_simp+
  have differ: "as_dict named_123 \<noteq> as_dict named_int_123"
    by (simp add: as_dict_def named_123_def named_int_123_def)
  have reread: "yaml_to_config safe_load_123 yaml_123 = Config (as_dict named_int_123)"
    by code_simp
  show ?thesis
    using valid differ by (simp add: same reread)
qed


end
